theory Spec2Isabelle
  imports Complex_Main "HOL-Library.Sublist"
begin

section \<open>The simulator script \<open>interferometer/simulators/light_sersic_exp.py\<close>\<close>

text \<open>
  The repository is one Python script. It computes four path strings with
  \<open>os.path.join\<close> and otherwise only calls the external package \<open>autogalaxy\<close>
  (\<open>ag\<close>, \<open>aplt\<close>), whose code is not part of the repository. The script is modelled
  statement by statement; the package is a parameter of the model: a function from the
  callee, its keyword arguments and the outside world to a result (a value or a raised
  error) and a new world. Nothing is assumed about that function, except that each call
  returns or raises. The two \<open>import\<close> statements and the attribute lookups
  (\<open>ag.Grid2D.uniform\<close> and the like) are taken to succeed, and the docstrings between the
  statements do nothing.
\<close>

subsection \<open>Python values, errors, calls\<close>

datatype error = FileNotFound | FormatError | AlreadyExists | DiskWriteFailure
  | LibraryError string

text \<open>
  Values the script handles: its own literals (floats are the literal's decimal value),
  tuples and lists of values, a reference to an attribute of the package that is passed
  without being called (\<open>ag.TransformerDFT\<close>), and objects made by the package, which are
  opaque (\<open>'o\<close>).
\<close>

datatype 'o pyval = PyNone | PyBool bool | PyInt int | PyFloat real | PyStr string
  | PyTuple "'o pyval list" | PyList "'o pyval list" | PyAttr string | PyObj 'o

datatype 'o callee = Function string | Method "'o pyval" string

type_synonym 'o kwargs = "(string \<times> 'o pyval) list"

type_synonym ('o, 'w) library =
  "'o callee \<Rightarrow> 'o kwargs \<Rightarrow> 'w \<Rightarrow> (error + 'o pyval) \<times> 'w"

text \<open>The seven steps of the pipeline, in the order of the script's sections.\<close>

datatype stage = PathSetup | GridConstruction | WavelengthLoading | SimulatorConfiguration
  | SceneConstruction | RenderingAndSimulation | Output

text \<open>
  A run is observed through its trace: the steps entered and the calls made, each call
  with its callee, its keyword arguments and what it returned or raised.
\<close>

datatype 'o event = Enter stage | Call "'o callee" "'o kwargs" "error + 'o pyval"

record ('o, 'w) py_state =
  world :: 'w
  trace :: "'o event list"

type_synonym ('a, 'o, 'w) script = "('o, 'w) py_state \<Rightarrow> (error + 'a) \<times> ('o, 'w) py_state"

definition ret :: "'a \<Rightarrow> ('a, 'o, 'w) script" where
  "ret a s = (Inr a, s)"

text \<open>
  Sequencing. The script has no \<open>try\<close>: an error raised by a statement ends the run, and
  the statements after it are not executed.
\<close>

definition bnd :: "('a, 'o, 'w) script \<Rightarrow> ('a \<Rightarrow> ('b, 'o, 'w) script) \<Rightarrow> ('b, 'o, 'w) script" where
  "bnd m f s = (case m s of (Inl e, s') \<Rightarrow> (Inl e, s') | (Inr a, s') \<Rightarrow> f a s')"

definition enter :: "stage \<Rightarrow> (unit, 'o, 'w) script" where
  "enter g s = (Inr (), s\<lparr>trace := trace s @ [Enter g]\<rparr>)"

definition call :: "('o, 'w) library \<Rightarrow> 'o callee \<Rightarrow> 'o kwargs \<Rightarrow> ('o pyval, 'o, 'w) script" where
  "call lib c kw s =
     (case lib c kw (world s) of
        (r, w') \<Rightarrow> (r, \<lparr>world = w', trace = trace s @ [Call c kw r]\<rparr>))"

subsection \<open>\<open>os.path.join\<close>\<close>

text \<open>
  The POSIX \<open>os.path.join(a, *p)\<close>: a component that starts with the separator replaces
  what came before it; otherwise it is appended, after a separator unless the path so far
  is empty or already ends with one.
\<close>

definition join2 :: "string \<Rightarrow> string \<Rightarrow> string" where
  "join2 path b =
     (if take 1 b = ''/'' then b
      else if path = [] \<or> last path = CHR ''/'' then path @ b
      else path @ ''/'' @ b)"

definition path_join :: "string \<Rightarrow> string list \<Rightarrow> string" where
  "path_join a p = foldl join2 a p"

subsection \<open>The script\<close>

text \<open>Lines 27, 28, 34 and 51: the module-level strings.\<close>

definition dataset_type :: string where
  "dataset_type = ''interferometer''"

definition dataset_name :: string where
  "dataset_name = ''light_sersic_exp''"

definition dataset_path :: string where
  "dataset_path = path_join ''dataset'' [dataset_type, dataset_name]"

definition uv_wavelengths_path :: string where
  "uv_wavelengths_path = path_join ''dataset'' [dataset_type, ''uv_wavelengths'']"

text \<open>Lines 27 to 34. Path setup only computes the strings above; it calls nothing in the package.\<close>

definition path_setup :: "(string, 'o, 'w) script" where
  "path_setup = bnd (enter PathSetup) (\<lambda>_. ret dataset_path)"

text \<open>Line 42.\<close>

definition grid_construction :: "('o, 'w) library \<Rightarrow> ('o pyval, 'o, 'w) script" where
  "grid_construction lib =
     bnd (enter GridConstruction) (\<lambda>_.
     call lib (Function ''ag.Grid2D.uniform'')
       [(''shape_native'', PyTuple [PyInt 400, PyInt 400]),
        (''pixel_scales'', PyFloat 0.2),
        (''sub_size'', PyInt 1)])"

text \<open>Lines 51 to 54.\<close>

definition wavelength_loading :: "('o, 'w) library \<Rightarrow> ('o pyval, 'o, 'w) script" where
  "wavelength_loading lib =
     bnd (enter WavelengthLoading) (\<lambda>_.
     call lib (Function ''ag.util.array_1d.numpy_array_1d_via_fits_from'')
       [(''file_path'', PyStr (path_join uv_wavelengths_path [''sma.fits''])),
        (''hdu'', PyInt 0)])"

text \<open>Lines 60 to 65.\<close>

definition simulator_configuration ::
  "('o, 'w) library \<Rightarrow> 'o pyval \<Rightarrow> ('o pyval, 'o, 'w) script" where
  "simulator_configuration lib uv_wavelengths =
     bnd (enter SimulatorConfiguration) (\<lambda>_.
     call lib (Function ''ag.SimulatorInterferometer'')
       [(''uv_wavelengths'', uv_wavelengths),
        (''exposure_time'', PyFloat 300.0),
        (''noise_sigma'', PyFloat 1000.0),
        (''transformer_class'', PyAttr ''ag.TransformerDFT'')])"

text \<open>
  Lines 80 to 100. Python evaluates the arguments of a call before the call, left to
  right: the ellipticity components before the profile that takes them, both profiles
  before the galaxy.
\<close>

definition scene_construction :: "('o, 'w) library \<Rightarrow> ('o pyval, 'o, 'w) script" where
  "scene_construction lib =
     bnd (enter SceneConstruction) (\<lambda>_.
     bnd (call lib (Function ''ag.convert.ell_comps_from'')
            [(''axis_ratio'', PyFloat 0.9), (''angle'', PyFloat 45.0)]) (\<lambda>bulge_ell_comps.
     bnd (call lib (Function ''ag.lp.Sersic'')
            [(''centre'', PyTuple [PyFloat 0.0, PyFloat 0.0]),
             (''ell_comps'', bulge_ell_comps),
             (''intensity'', PyFloat 1.0),
             (''effective_radius'', PyFloat 0.6),
             (''sersic_index'', PyFloat 3.0)]) (\<lambda>bulge.
     bnd (call lib (Function ''ag.convert.ell_comps_from'')
            [(''axis_ratio'', PyFloat 0.7), (''angle'', PyFloat 30.0)]) (\<lambda>disk_ell_comps.
     bnd (call lib (Function ''ag.lp.Exponential'')
            [(''centre'', PyTuple [PyFloat 0.0, PyFloat 0.0]),
             (''ell_comps'', disk_ell_comps),
             (''intensity'', PyFloat 0.5),
             (''effective_radius'', PyFloat 1.6)]) (\<lambda>disk.
     bnd (call lib (Function ''ag.Galaxy'')
            [(''redshift'', PyFloat 0.5), (''bulge'', bulge), (''disk'', disk)]) (\<lambda>galaxy.
     call lib (Function ''ag.Plane'') [(''galaxies'', PyList [galaxy])]))))))"

text \<open>Lines 105 to 120.\<close>

definition rendering_and_simulation ::
  "('o, 'w) library \<Rightarrow> 'o pyval \<Rightarrow> 'o pyval \<Rightarrow> 'o pyval \<Rightarrow> ('o pyval, 'o, 'w) script" where
  "rendering_and_simulation lib simulator plane grid_2d =
     bnd (enter RenderingAndSimulation) (\<lambda>_.
     bnd (call lib (Function ''aplt.PlanePlotter'')
            [(''plane'', plane), (''grid'', grid_2d)]) (\<lambda>plane_plotter.
     bnd (call lib (Method plane_plotter ''figures_2d'') [(''image'', PyBool True)]) (\<lambda>_.
     bnd (call lib (Method simulator ''via_plane_from'')
            [(''plane'', plane), (''grid'', grid_2d)]) (\<lambda>interferometer.
     bnd (call lib (Function ''aplt.InterferometerPlotter'')
            [(''interferometer'', interferometer)]) (\<lambda>interferometer_plotter.
     bnd (call lib (Method interferometer_plotter ''figures_2d'')
            [(''dirty_image'', PyBool True)]) (\<lambda>_.
     bnd (call lib (Method interferometer_plotter ''subplot_interferometer'') []) (\<lambda>_.
     bnd (call lib (Method interferometer_plotter ''subplot_dirty_images'') []) (\<lambda>_.
     ret interferometer))))))))"

text \<open>Lines 127 to 159.\<close>

definition output_step ::
  "('o, 'w) library \<Rightarrow> 'o pyval \<Rightarrow> 'o pyval \<Rightarrow> 'o pyval \<Rightarrow> string \<Rightarrow> ('o pyval, 'o, 'w) script" where
  "output_step lib interferometer plane grid_2d path =
     bnd (enter Output) (\<lambda>_.
     bnd (call lib (Method interferometer ''output_to_fits'')
            [(''visibilities_path'', PyStr (path_join path [''visibilities.fits''])),
             (''noise_map_path'', PyStr (path_join path [''noise_map.fits''])),
             (''uv_wavelengths_path'', PyStr (path_join path [''uv_wavelengths.fits''])),
             (''overwrite'', PyBool True)]) (\<lambda>_.
     bnd (call lib (Function ''aplt.Output'')
            [(''path'', PyStr path), (''format'', PyStr ''png'')]) (\<lambda>out.
     bnd (call lib (Function ''aplt.MatPlot2D'') [(''output'', out)]) (\<lambda>mat_plot_2d.
     bnd (call lib (Function ''aplt.InterferometerPlotter'')
            [(''interferometer'', interferometer),
             (''mat_plot_2d'', mat_plot_2d)]) (\<lambda>interferometer_plotter.
     bnd (call lib (Method interferometer_plotter ''subplot_interferometer'') []) (\<lambda>_.
     bnd (call lib (Method interferometer_plotter ''subplot_dirty_images'') []) (\<lambda>_.
     bnd (call lib (Method interferometer_plotter ''figures_2d'')
            [(''visibilities'', PyBool True)]) (\<lambda>_.
     bnd (call lib (Function ''aplt.PlanePlotter'')
            [(''plane'', plane), (''grid'', grid_2d),
             (''mat_plot_2d'', mat_plot_2d)]) (\<lambda>plane_plotter.
     bnd (call lib (Method plane_plotter ''subplot'') []) (\<lambda>_.
     call lib (Method plane ''output_to_json'')
       [(''file_path'', PyStr (path_join path [''plane.json'']))]))))))))))"

text \<open>The module body, top to bottom.\<close>

definition run :: "('o, 'w) library \<Rightarrow> ('o pyval, 'o, 'w) script" where
  "run lib =
     bnd path_setup (\<lambda>path.
     bnd (grid_construction lib) (\<lambda>grid_2d.
     bnd (wavelength_loading lib) (\<lambda>uv_wavelengths.
     bnd (simulator_configuration lib uv_wavelengths) (\<lambda>simulator.
     bnd (scene_construction lib) (\<lambda>plane.
     bnd (rendering_and_simulation lib simulator plane grid_2d) (\<lambda>interferometer.
     output_step lib interferometer plane grid_2d path))))))"

definition main :: "('o, 'w) library \<Rightarrow> 'w \<Rightarrow> (error + 'o pyval) \<times> ('o, 'w) py_state" where
  "main lib w = run lib \<lparr>world = w, trace = []\<rparr>"

subsection \<open>What is observed of a run\<close>

fun callee_name :: "'o callee \<Rightarrow> string" where
  "callee_name (Function n) = n"
| "callee_name (Method obj n) = n"

fun label :: "'o event \<Rightarrow> stage + string" where
  "label (Enter g) = Inl g"
| "label (Call c kw r) = Inr (callee_name c)"

fun stages_in :: "(stage + string) list \<Rightarrow> stage list" where
  "stages_in [] = []"
| "stages_in (Inl g # xs) = g # stages_in xs"
| "stages_in (Inr n # xs) = stages_in xs"

text \<open>The steps a run has entered, in the order it entered them.\<close>

definition stages_of :: "'o event list \<Rightarrow> stage list" where
  "stages_of t = stages_in (map label t)"

definition pipeline :: "stage list" where
  "pipeline = [PathSetup, GridConstruction, WavelengthLoading, SimulatorConfiguration,
     SceneConstruction, RenderingAndSimulation, Output]"

text \<open>The steps and calls of each part of the script, in source order.\<close>

definition path_setup_steps :: "(stage + string) list" where
  "path_setup_steps = [Inl PathSetup]"

definition grid_construction_steps :: "(stage + string) list" where
  "grid_construction_steps = [Inl GridConstruction, Inr ''ag.Grid2D.uniform'']"

definition wavelength_loading_steps :: "(stage + string) list" where
  "wavelength_loading_steps =
     [Inl WavelengthLoading, Inr ''ag.util.array_1d.numpy_array_1d_via_fits_from'']"

definition simulator_configuration_steps :: "(stage + string) list" where
  "simulator_configuration_steps =
     [Inl SimulatorConfiguration, Inr ''ag.SimulatorInterferometer'']"

definition scene_construction_steps :: "(stage + string) list" where
  "scene_construction_steps = [Inl SceneConstruction, Inr ''ag.convert.ell_comps_from'',
     Inr ''ag.lp.Sersic'', Inr ''ag.convert.ell_comps_from'', Inr ''ag.lp.Exponential'',
     Inr ''ag.Galaxy'', Inr ''ag.Plane'']"

definition rendering_and_simulation_steps :: "(stage + string) list" where
  "rendering_and_simulation_steps =
     [Inl RenderingAndSimulation, Inr ''aplt.PlanePlotter'', Inr ''figures_2d'',
      Inr ''via_plane_from'', Inr ''aplt.InterferometerPlotter'', Inr ''figures_2d'',
      Inr ''subplot_interferometer'', Inr ''subplot_dirty_images'']"

definition output_steps :: "(stage + string) list" where
  "output_steps =
     [Inl Output, Inr ''output_to_fits'', Inr ''aplt.Output'', Inr ''aplt.MatPlot2D'',
      Inr ''aplt.InterferometerPlotter'', Inr ''subplot_interferometer'',
      Inr ''subplot_dirty_images'', Inr ''figures_2d'', Inr ''aplt.PlanePlotter'',
      Inr ''subplot'', Inr ''output_to_json'']"

definition script_order :: "(stage + string) list" where
  "script_order = path_setup_steps @ grid_construction_steps @ wavelength_loading_steps @
     simulator_configuration_steps @ scene_construction_steps @
     rendering_and_simulation_steps @ output_steps"

text \<open>
  \<open>emits L m\<close>: whatever the package does, the part \<open>m\<close> of the script adds to the trace
  an initial segment of \<open>L\<close>, and all of \<open>L\<close> when it does not raise.
\<close>

definition emits :: "(stage + string) list \<Rightarrow> ('a, 'o, 'w) script \<Rightarrow> bool" where
  "emits L m \<longleftrightarrow>
     (\<forall>s r s'. m s = (r, s') \<longrightarrow>
        (\<exists>t. trace s' = trace s @ t \<and> prefix (map label t) L \<and>
             ((\<exists>a. r = Inr a) \<longrightarrow> map label t = L)))"

text \<open>\<open>all_events P m\<close>: if every event so far satisfies \<open>P\<close>, so does every event after \<open>m\<close>.\<close>

definition all_events :: "('o event \<Rightarrow> bool) \<Rightarrow> ('a, 'o, 'w) script \<Rightarrow> bool" where
  "all_events P m \<longleftrightarrow>
     (\<forall>s r s'. m s = (r, s') \<longrightarrow> list_all P (trace s) \<longrightarrow> list_all P (trace s'))"

fun fits_output_call :: "'o event \<Rightarrow> bool" where
  "fits_output_call (Call (Method obj n) kw r) = (n = ''output_to_fits'')"
| "fits_output_call _ = False"

fun loads_wavelengths :: "'o event \<Rightarrow> bool" where
  "loads_wavelengths (Call (Function n) kw r) =
     (n = ''ag.util.array_1d.numpy_array_1d_via_fits_from'')"
| "loads_wavelengths _ = False"

fun event_kwargs :: "'o event \<Rightarrow> 'o kwargs" where
  "event_kwargs (Call c kw r) = kw"
| "event_kwargs (Enter g) = []"

fun raised :: "'o event \<Rightarrow> error option" where
  "raised (Call c kw (Inl e)) = Some e"
| "raised _ = None"

text \<open>The result recorded with a call is one the package gives for that call.\<close>

fun from_library :: "('o, 'w) library \<Rightarrow> 'o event \<Rightarrow> bool" where
  "from_library lib (Call c kw r) = (\<exists>w. r = fst (lib c kw w))"
| "from_library lib (Enter g) = True"

text \<open>\<open>below dir p\<close>: the path \<open>p\<close> lies inside the directory \<open>dir\<close>.\<close>

definition below :: "string \<Rightarrow> string \<Rightarrow> bool" where
  "below dir p \<longleftrightarrow> prefix (dir @ ''/'') p"

text \<open>The keyword arguments through which the script hands a path to the package.\<close>

definition path_keywords :: "string list" where
  "path_keywords = [''file_path'', ''path'', ''visibilities_path'', ''noise_map_path'',
     ''uv_wavelengths_path'']"

definition path_args :: "'o kwargs \<Rightarrow> 'o pyval list" where
  "path_args kw = map snd (filter (\<lambda>kv. fst kv \<in> set path_keywords) kw)"

text \<open>
  The paths of a call are in order: the loading call is given the input file, and any
  other call is given the output directory or a path inside it.
\<close>

definition paths_ok :: "'o event \<Rightarrow> bool" where
  "paths_ok ev \<longleftrightarrow>
     (\<forall>v \<in> set (path_args (event_kwargs ev)).
        if loads_wavelengths ev then v = PyStr (path_join uv_wavelengths_path [''sma.fits''])
        else (\<exists>p. v = PyStr p \<and> (p = dataset_path \<or> below dataset_path p)))"

text \<open>
  \<open>handed p kw\<close>: among its path arguments the call is given the path \<open>p\<close>, or a
  directory that contains it.
\<close>

definition handed :: "string \<Rightarrow> 'o kwargs \<Rightarrow> bool" where
  "handed p kw =
     list_ex (\<lambda>v. case v of PyStr q \<Rightarrow> q = p \<or> below q p | _ \<Rightarrow> False) (path_args kw)"

text \<open>\<open>world_inv Q m\<close>: if \<open>Q\<close> holds of the world before \<open>m\<close>, it holds after.\<close>

definition world_inv :: "('w \<Rightarrow> bool) \<Rightarrow> ('a, 'o, 'w) script \<Rightarrow> bool" where
  "world_inv Q m \<longleftrightarrow> (\<forall>s r s'. m s = (r, s') \<longrightarrow> Q (world s) \<longrightarrow> Q (world s'))"

subsection \<open>A small package to run the script against\<close>

text \<open>
  To evaluate the model on concrete runs, a stand-in for the package: the world is the
  files on disk (path and content), loading raises \<open>FileNotFound\<close> for a path that is
  not there, \<open>output_to_fits\<close> raises \<open>AlreadyExists\<close> when a target exists and
  \<open>overwrite\<close> is not \<open>True\<close>, constructors return an object named after themselves, and
  plotting does nothing.
\<close>

type_synonym files = "(string \<times> string) list"

definition str_arg :: "'o kwargs \<Rightarrow> string \<Rightarrow> string option" where
  "str_arg kw k = (case map_of kw k of Some (PyStr p) \<Rightarrow> Some p | _ \<Rightarrow> None)"

definition stub_library :: "(string, files) library" where
  "stub_library c kw fs =
     (case c of
        Function n \<Rightarrow>
          if n = ''ag.util.array_1d.numpy_array_1d_via_fits_from'' then
            (case str_arg kw ''file_path'' of
               None \<Rightarrow> (Inl (LibraryError ''file_path''), fs)
             | Some p \<Rightarrow>
                 (case map_of fs p of
                    None \<Rightarrow> (Inl FileNotFound, fs)
                  | Some content \<Rightarrow> (Inr (PyObj content), fs)))
          else (Inr (PyObj n), fs)
      | Method obj n \<Rightarrow>
          if n = ''output_to_fits'' then
            (let paths = List.map_filter (str_arg kw)
                   [''visibilities_path'', ''noise_map_path'', ''uv_wavelengths_path'']
             in if map_of kw ''overwrite'' \<noteq> Some (PyBool True) \<and>
                   (\<exists>p \<in> set paths. map_of fs p \<noteq> None)
                then (Inl AlreadyExists, fs)
                else (Inr PyNone, map (\<lambda>p. (p, ''fits'')) paths @ fs))
          else if n = ''output_to_json'' then
            (case str_arg kw ''file_path'' of
               None \<Rightarrow> (Inl (LibraryError ''file_path''), fs)
             | Some p \<Rightarrow> (Inr PyNone, (p, ''json'') # fs))
          else if n = ''via_plane_from'' then (Inr (PyObj ''interferometer''), fs)
          else (Inr PyNone, fs))"

text \<open>Three disks: the input file only; the disk after an earlier run; an empty disk.\<close>

definition bundled_files :: files where
  "bundled_files = [(''dataset/interferometer/uv_wavelengths/sma.fits'', ''sma'')]"

definition rerun_files :: files where
  "rerun_files =
     [(''dataset/interferometer/light_sersic_exp/visibilities.fits'', ''old''),
      (''dataset/interferometer/light_sersic_exp/noise_map.fits'', ''old''),
      (''dataset/interferometer/light_sersic_exp/uv_wavelengths.fits'', ''old''),
      (''dataset/interferometer/uv_wavelengths/sma.fits'', ''sma'')]"

definition no_files :: files where
  "no_files = []"

section \<open>Properties\<close>

subsection \<open>The paths\<close>

lemma dataset_path_eq: "dataset_path = ''dataset/interferometer/light_sersic_exp''"
  by (simp add: dataset_path_def path_join_def join2_def dataset_type_def dataset_name_def)

lemma uv_wavelengths_path_eq: "uv_wavelengths_path = ''dataset/interferometer/uv_wavelengths''"
  by (simp add: uv_wavelengths_path_def path_join_def join2_def dataset_type_def)

lemma input_file_eq:
  "path_join uv_wavelengths_path [''sma.fits''] =
     ''dataset/interferometer/uv_wavelengths/sma.fits''"
  by (simp add: uv_wavelengths_path_eq path_join_def join2_def)

lemmas paths = dataset_path_eq uv_wavelengths_path_eq path_join_def join2_def

subsection \<open>Steps and calls in source order\<close>

lemma emits_ret: "emits [] (ret a)"
  by (simp add: emits_def ret_def)

lemma emits_enter: "emits [Inl g] (enter g)"
  by (simp add: emits_def enter_def)

lemma emits_call: "n = callee_name c \<Longrightarrow> emits [Inr n] (call lib c kw)"
  by (auto simp: emits_def call_def split: prod.splits)

lemma emitsD:
  assumes "emits L m" and "m s = (r, s')"
  shows "\<exists>t. trace s' = trace s @ t \<and> prefix (map label t) L \<and>
             ((\<exists>a. r = Inr a) \<longrightarrow> map label t = L)"
  using assms(1) [unfolded emits_def, rule_format, OF assms(2)] .

lemma emits_bnd:
  assumes m: "emits L1 m" and f: "\<And>a. emits L2 (f a)"
  shows "emits (L1 @ L2) (bnd m f)"
  unfolding emits_def
proof (intro allI impI)
  fix s r s'
  assume run: "bnd m f s = (r, s')"
  obtain r1 s1 where ms: "m s = (r1, s1)" by (cases "m s")
  from emitsD [OF m ms] obtain t1 where t1: "trace s1 = trace s @ t1"
    "prefix (map label t1) L1" "(\<exists>a. r1 = Inr a) \<longrightarrow> map label t1 = L1"
    by (elim exE conjE)
  show "\<exists>t. trace s' = trace s @ t \<and> prefix (map label t) (L1 @ L2) \<and>
             ((\<exists>a. r = Inr a) \<longrightarrow> map label t = L1 @ L2)"
  proof (cases r1)
    case (Inl e)
    with run ms have "r = Inl e" "s' = s1" by (simp_all add: bnd_def)
    with t1 show ?thesis by (auto intro: prefix_prefix)
  next
    case (Inr a)
    with run ms have fa: "f a s1 = (r, s')" by (simp add: bnd_def)
    from emitsD [OF f fa] obtain t2 where t2: "trace s' = trace s1 @ t2"
      "prefix (map label t2) L2" "(\<exists>b. r = Inr b) \<longrightarrow> map label t2 = L2"
      by (elim exE conjE)
    from Inr t1 have l1: "map label t1 = L1" by simp
    have "trace s' = trace s @ (t1 @ t2)" using t1 t2 by simp
    moreover have "prefix (map label (t1 @ t2)) (L1 @ L2)" using l1 t2 by simp
    moreover have "(\<exists>b. r = Inr b) \<longrightarrow> map label (t1 @ t2) = L1 @ L2" using l1 t2 by simp
    ultimately show ?thesis by blast
  qed
qed

lemma emits_enter_bnd: "emits L (f ()) \<Longrightarrow> emits (Inl g # L) (bnd (enter g) f)"
  using emits_bnd [OF emits_enter, of L f g] by simp

lemma emits_call_bnd:
  "n = callee_name c \<Longrightarrow> (\<And>a. emits L (f a)) \<Longrightarrow> emits (Inr n # L) (bnd (call lib c kw) f)"
  using emits_bnd [OF emits_call, of n c L f lib kw] by simp

lemmas emits_intros = emits_enter_bnd emits_call_bnd emits_call emits_ret

lemma emits_path_setup: "emits path_setup_steps (path_setup :: (string, 'o, 'w) script)"
  unfolding path_setup_def path_setup_steps_def by (intro emits_intros)

lemma emits_grid_construction: "emits grid_construction_steps (grid_construction lib)"
  unfolding grid_construction_def grid_construction_steps_def
  by (intro emits_intros) simp_all

lemma emits_wavelength_loading: "emits wavelength_loading_steps (wavelength_loading lib)"
  unfolding wavelength_loading_def wavelength_loading_steps_def
  by (intro emits_intros) simp_all

lemma emits_simulator_configuration:
  "emits simulator_configuration_steps (simulator_configuration lib uv)"
  unfolding simulator_configuration_def simulator_configuration_steps_def
  by (intro emits_intros) simp_all

lemma emits_scene_construction: "emits scene_construction_steps (scene_construction lib)"
  unfolding scene_construction_def scene_construction_steps_def
  by (intro emits_intros) simp_all

lemma emits_rendering_and_simulation:
  "emits rendering_and_simulation_steps (rendering_and_simulation lib simulator plane grid_2d)"
  unfolding rendering_and_simulation_def rendering_and_simulation_steps_def
  by (intro emits_intros) simp_all

lemma emits_output_step:
  "emits output_steps (output_step lib interferometer plane grid_2d path)"
  unfolding output_step_def output_steps_def
  by (intro emits_intros) simp_all

lemma emits_run: "emits script_order (run lib)"
  unfolding run_def script_order_def
  by (intro emits_bnd emits_path_setup emits_grid_construction emits_wavelength_loading
      emits_simulator_configuration emits_scene_construction emits_rendering_and_simulation
      emits_output_step)

lemma stages_in_append: "stages_in (xs @ ys) = stages_in xs @ stages_in ys"
  by (induction xs rule: stages_in.induct) simp_all

lemma stages_in_prefix: "prefix xs ys \<Longrightarrow> prefix (stages_in xs) (stages_in ys)"
  by (auto simp: prefix_def stages_in_append)

lemma stages_in_script_order: "stages_in script_order = pipeline"
  by (simp add: script_order_def pipeline_def path_setup_steps_def grid_construction_steps_def
      wavelength_loading_steps_def simulator_configuration_steps_def
      scene_construction_steps_def rendering_and_simulation_steps_def output_steps_def)

lemma script_order_eq:
  "script_order =
     [Inl PathSetup,
      Inl GridConstruction, Inr ''ag.Grid2D.uniform'',
      Inl WavelengthLoading, Inr ''ag.util.array_1d.numpy_array_1d_via_fits_from'',
      Inl SimulatorConfiguration, Inr ''ag.SimulatorInterferometer'',
      Inl SceneConstruction, Inr ''ag.convert.ell_comps_from'', Inr ''ag.lp.Sersic'',
      Inr ''ag.convert.ell_comps_from'', Inr ''ag.lp.Exponential'', Inr ''ag.Galaxy'',
      Inr ''ag.Plane'',
      Inl RenderingAndSimulation, Inr ''aplt.PlanePlotter'', Inr ''figures_2d'',
      Inr ''via_plane_from'', Inr ''aplt.InterferometerPlotter'', Inr ''figures_2d'',
      Inr ''subplot_interferometer'', Inr ''subplot_dirty_images'',
      Inl Output, Inr ''output_to_fits'', Inr ''aplt.Output'', Inr ''aplt.MatPlot2D'',
      Inr ''aplt.InterferometerPlotter'', Inr ''subplot_interferometer'',
      Inr ''subplot_dirty_images'', Inr ''figures_2d'', Inr ''aplt.PlanePlotter'',
      Inr ''subplot'', Inr ''output_to_json'']"
  by (simp add: script_order_def path_setup_steps_def grid_construction_steps_def
      wavelength_loading_steps_def simulator_configuration_steps_def
      scene_construction_steps_def rendering_and_simulation_steps_def output_steps_def)

text \<open>
  In every run the steps entered and the calls made, by name, are an initial segment of
  the script's 7 steps and 26 calls in source order; a run that does not raise makes all
  of them.
\<close>

lemma run_steps:
  "prefix (map label (trace (snd (main lib w)))) script_order \<and>
   ((\<exists>a. fst (main lib w) = Inr a) \<longrightarrow> map label (trace (snd (main lib w))) = script_order)"
proof -
  obtain r s' where rs: "run lib \<lparr>world = w, trace = []\<rparr> = (r, s')"
    by (cases "run lib \<lparr>world = w, trace = []\<rparr>")
  from emitsD [OF emits_run rs] show ?thesis
    by (auto simp: main_def rs)
qed

subsection \<open>Properties of every event of a run\<close>

lemma all_events_ret: "all_events P (ret a)"
  by (simp add: all_events_def ret_def)

lemma all_events_enter: "P (Enter g) \<Longrightarrow> all_events P (enter g)"
  by (simp add: all_events_def enter_def)

lemma all_events_call:
  "(\<And>w. P (Call c kw (fst (lib c kw w)))) \<Longrightarrow> all_events P (call lib c kw)"
  by (auto simp: all_events_def call_def split: prod.splits) (metis fst_conv)

lemma all_events_bnd:
  assumes m: "all_events P m" and f: "\<And>a. all_events P (f a)"
  shows "all_events P (bnd m f)"
  unfolding all_events_def
proof (intro allI impI)
  fix s r s'
  assume run: "bnd m f s = (r, s')" and inv: "list_all P (trace s)"
  obtain r1 s1 where ms: "m s = (r1, s1)" by (cases "m s")
  from m [unfolded all_events_def, rule_format, OF ms inv]
  have inv1: "list_all P (trace s1)" .
  show "list_all P (trace s')"
  proof (cases r1)
    case (Inl e)
    with run ms inv1 show ?thesis by (simp add: bnd_def)
  next
    case (Inr a)
    with run ms have "f a s1 = (r, s')" by (simp add: bnd_def)
    from f [unfolded all_events_def, rule_format, OF this inv1] show ?thesis .
  qed
qed

lemmas all_events_intros = all_events_bnd all_events_call all_events_enter all_events_ret

lemma bnd_path_setup: "bnd path_setup f = bnd (enter PathSetup) (\<lambda>_. f dataset_path)"
  by (rule ext) (simp add: path_setup_def bnd_def ret_def enter_def)

lemmas step_defs = grid_construction_def wavelength_loading_def simulator_configuration_def
  scene_construction_def rendering_and_simulation_def output_step_def

lemma all_events_main:
  assumes "all_events P (run lib)"
  shows "list_all P (trace (snd (main lib w)))"
proof -
  obtain r s' where rs: "run lib \<lparr>world = w, trace = []\<rparr> = (r, s')"
    by (cases "run lib \<lparr>world = w, trace = []\<rparr>")
  from assms [unfolded all_events_def, rule_format, OF rs] show ?thesis
    by (simp add: main_def rs)
qed

lemma overwrite_inv:
  "all_events (\<lambda>ev. fits_output_call ev \<longrightarrow>
      map_of (event_kwargs ev) ''overwrite'' = Some (PyBool True)) (run lib)"
  unfolding run_def bnd_path_setup step_defs by (intro all_events_intros) simp_all

lemma from_library_inv: "all_events (from_library lib) (run lib)"
  unfolding run_def bnd_path_setup step_defs by (intro all_events_intros) auto

lemma paths_inv: "all_events paths_ok (run lib)"
  unfolding run_def bnd_path_setup step_defs
  by (intro all_events_intros)
     (simp_all add: paths_ok_def path_args_def path_keywords_def below_def paths)

subsection \<open>Properties of the world\<close>

lemma world_inv_ret: "world_inv Q (ret a)"
  by (simp add: world_inv_def ret_def)

lemma world_inv_enter: "world_inv Q (enter g)"
  by (simp add: world_inv_def enter_def)

lemma world_inv_call:
  "(\<And>w. Q w \<Longrightarrow> Q (snd (lib c kw w))) \<Longrightarrow> world_inv Q (call lib c kw)"
  by (auto simp: world_inv_def call_def split: prod.splits) (metis snd_conv)

lemma world_inv_bnd:
  assumes m: "world_inv Q m" and f: "\<And>a. world_inv Q (f a)"
  shows "world_inv Q (bnd m f)"
  unfolding world_inv_def
proof (intro allI impI)
  fix s r s'
  assume run: "bnd m f s = (r, s')" and q: "Q (world s)"
  obtain r1 s1 where ms: "m s = (r1, s1)" by (cases "m s")
  with m q have q1: "Q (world s1)" by (auto simp: world_inv_def)
  show "Q (world s')"
  proof (cases r1)
    case (Inl e)
    with run ms q1 show ?thesis by (simp add: bnd_def)
  next
    case (Inr a)
    with run ms have "f a s1 = (r, s')" by (simp add: bnd_def)
    with f [of a] q1 show ?thesis by (auto simp: world_inv_def)
  qed
qed

lemmas world_inv_intros = world_inv_bnd world_inv_call world_inv_enter world_inv_ret

lemma input_kept:
  assumes told: "\<And>c kw w'. \<not> handed ''dataset/interferometer/uv_wavelengths/sma.fits'' kw \<Longrightarrow>
      content (snd (lib c kw w')) ''dataset/interferometer/uv_wavelengths/sma.fits'' =
      content w' ''dataset/interferometer/uv_wavelengths/sma.fits''"
    and reads: "\<And>kw w'.
      content (snd (lib (Function ''ag.util.array_1d.numpy_array_1d_via_fits_from'') kw w'))
        ''dataset/interferometer/uv_wavelengths/sma.fits'' =
      content w' ''dataset/interferometer/uv_wavelengths/sma.fits''"
  shows "world_inv (\<lambda>x. content x ''dataset/interferometer/uv_wavelengths/sma.fits'' = v)
     (run lib)"
  unfolding run_def bnd_path_setup step_defs
  by (intro world_inv_intros)
     (simp_all add: reads told handed_def path_args_def path_keywords_def below_def paths)

lemma world_inv_main:
  assumes "world_inv Q (run lib)" and "Q w"
  shows "Q (world (snd (main lib w)))"
proof -
  obtain r s' where rs: "run lib \<lparr>world = w, trace = []\<rparr> = (r, s')"
    by (cases "run lib \<lparr>world = w, trace = []\<rparr>")
  with assms show ?thesis by (auto simp: world_inv_def main_def)
qed

subsection \<open>Concrete runs\<close>

lemmas run_simps = main_def run_def path_setup_def step_defs bnd_def ret_def enter_def
  call_def stub_library_def str_arg_def paths

lemma missing_input_run: "fst (main stub_library no_files) = Inl FileNotFound"
  by (simp add: run_simps no_files_def)

lemma missing_input_stages:
  "stages_of (trace (snd (main stub_library no_files))) =
     [PathSetup, GridConstruction, WavelengthLoading]"
  by (simp add: run_simps no_files_def stages_of_def)

lemma first_run_completes: "fst (main stub_library bundled_files) = Inr PyNone"
  by (simp add: run_simps bundled_files_def)

lemma first_run_has_fits_output:
  "Call (Method (PyObj ''interferometer'') ''output_to_fits'')
     [(''visibilities_path'', PyStr ''dataset/interferometer/light_sersic_exp/visibilities.fits''),
      (''noise_map_path'', PyStr ''dataset/interferometer/light_sersic_exp/noise_map.fits''),
      (''uv_wavelengths_path'',
         PyStr ''dataset/interferometer/light_sersic_exp/uv_wavelengths.fits''),
      (''overwrite'', PyBool True)] (Inr PyNone)
   \<in> set (trace (snd (main stub_library bundled_files)))"
  by (simp add: run_simps bundled_files_def)

lemma rerun_has_fits_output:
  "Call (Method (PyObj ''interferometer'') ''output_to_fits'')
     [(''visibilities_path'', PyStr ''dataset/interferometer/light_sersic_exp/visibilities.fits''),
      (''noise_map_path'', PyStr ''dataset/interferometer/light_sersic_exp/noise_map.fits''),
      (''uv_wavelengths_path'',
         PyStr ''dataset/interferometer/light_sersic_exp/uv_wavelengths.fits''),
      (''overwrite'', PyBool True)] (Inr PyNone)
   \<in> set (trace (snd (main stub_library rerun_files)))"
  by (simp add: run_simps rerun_files_def)

lemma missing_input_labels:
  "map label (trace (snd (main stub_library no_files))) =
     [Inl PathSetup, Inl GridConstruction, Inr ''ag.Grid2D.uniform'',
      Inl WavelengthLoading, Inr ''ag.util.array_1d.numpy_array_1d_via_fits_from'']"
  by (simp add: run_simps no_files_def)

lemma first_run_world:
  "world (snd (main stub_library bundled_files)) =
     [(''dataset/interferometer/light_sersic_exp/plane.json'', ''json''),
      (''dataset/interferometer/light_sersic_exp/visibilities.fits'', ''fits''),
      (''dataset/interferometer/light_sersic_exp/noise_map.fits'', ''fits''),
      (''dataset/interferometer/light_sersic_exp/uv_wavelengths.fits'', ''fits''),
      (''dataset/interferometer/uv_wavelengths/sma.fits'', ''sma'')]"
  by (simp add: run_simps bundled_files_def List.map_filter_def)

lemma str_arg_path_args:
  assumes "str_arg kw k = Some p" and "k \<in> set path_keywords"
  shows "PyStr p \<in> set (path_args kw)"
proof -
  from assms(1) have "map_of kw k = Some (PyStr p)"
    by (auto simp: str_arg_def split: option.splits pyval.splits)
  then have "(k, PyStr p) \<in> set kw" by (rule map_of_SomeD)
  with assms(2) show ?thesis by (force simp: path_args_def)
qed

lemma not_handed_str_arg:
  assumes "\<not> handed p kw" and "k \<in> set path_keywords"
  shows "str_arg kw k \<noteq> Some p"
proof
  assume "str_arg kw k = Some p"
  from str_arg_path_args [OF this assms(2)] have "PyStr p \<in> set (path_args kw)" .
  then have "handed p kw"
    unfolding handed_def list_ex_iff by (rule bexI [rotated]) simp
  with assms(1) show False by contradiction
qed

lemma map_of_append_other: "p \<notin> set ps \<Longrightarrow> map_of (map (\<lambda>q. (q, c)) ps @ fs) p = map_of fs p"
  by (induction ps) auto

lemma stub_writes_where_told:
  assumes "\<not> handed p kw"
  shows "map_of (snd (stub_library c kw fs)) p = map_of fs p"
proof (cases c)
  case (Function n)
  then show ?thesis
    by (simp add: stub_library_def split: option.splits)
next
  case (Method obj n)
  have a: "str_arg kw ''visibilities_path'' \<noteq> Some p" "str_arg kw ''noise_map_path'' \<noteq> Some p"
    "str_arg kw ''uv_wavelengths_path'' \<noteq> Some p" "str_arg kw ''file_path'' \<noteq> Some p"
    using assms by (simp_all add: not_handed_str_arg path_keywords_def)
  then have "p \<notin> set (List.map_filter (str_arg kw)
      [''visibilities_path'', ''noise_map_path'', ''uv_wavelengths_path''])"
    by (auto simp: List.map_filter_def)
  with a Method show ?thesis
    by (auto simp: stub_library_def Let_def map_of_append_other split: option.splits)
qed

lemma stub_loader_reads:
  "map_of (snd (stub_library (Function ''ag.util.array_1d.numpy_array_1d_via_fits_from'') kw fs)) p
     = map_of fs p"
  by (simp add: stub_library_def split: option.splits)

lemma stub_contract:
  "\<forall>obj kw w'. fst (stub_library (Method obj ''output_to_fits'') kw w') = Inl AlreadyExists \<longrightarrow>
        map_of kw ''overwrite'' \<noteq> Some (PyBool True)"
  by (simp add: stub_library_def Let_def)

section \<open>The claims\<close>

text \<open>
  Claim C6. If the wavelength-loading step raises an error (\<open>FileNotFound\<close> for a missing
  path, \<open>FormatError\<close> for malformed contents, or any other), the script has no handler:
  the run ends with exactly that error, the world is as the loading call left it, and
  nothing after the loading call is executed. That the loading function raises on a
  missing or malformed file is the package's own behaviour and is the hypothesis here.
\<close>

theorem loading_error_propagates:
  assumes grid: "lib (Function ''ag.Grid2D.uniform'')
       [(''shape_native'', PyTuple [PyInt 400, PyInt 400]), (''pixel_scales'', PyFloat 0.2),
        (''sub_size'', PyInt 1)] w = (Inr grid_2d, w1)"
    and load: "lib (Function ''ag.util.array_1d.numpy_array_1d_via_fits_from'')
       [(''file_path'', PyStr (path_join uv_wavelengths_path [''sma.fits''])),
        (''hdu'', PyInt 0)] w1 = (Inl e, w2)"
  shows "main lib w = (Inl e, \<lparr>world = w2, trace =
       [Enter PathSetup, Enter GridConstruction,
        Call (Function ''ag.Grid2D.uniform'')
          [(''shape_native'', PyTuple [PyInt 400, PyInt 400]), (''pixel_scales'', PyFloat 0.2),
           (''sub_size'', PyInt 1)] (Inr grid_2d),
        Enter WavelengthLoading,
        Call (Function ''ag.util.array_1d.numpy_array_1d_via_fits_from'')
          [(''file_path'', PyStr (path_join uv_wavelengths_path [''sma.fits''])),
           (''hdu'', PyInt 0)] (Inl e)]\<rparr>)"
proof -
  have p: "path_setup \<lparr>world = w, trace = []\<rparr> =
      (Inr dataset_path, \<lparr>world = w, trace = [Enter PathSetup]\<rparr>)"
    by (simp add: path_setup_def bnd_def enter_def ret_def)
  have g: "grid_construction lib \<lparr>world = w, trace = [Enter PathSetup]\<rparr> =
      (Inr grid_2d, \<lparr>world = w1, trace = [Enter PathSetup, Enter GridConstruction,
        Call (Function ''ag.Grid2D.uniform'')
          [(''shape_native'', PyTuple [PyInt 400, PyInt 400]), (''pixel_scales'', PyFloat 0.2),
           (''sub_size'', PyInt 1)] (Inr grid_2d)]\<rparr>)"
    using grid by (simp add: grid_construction_def bnd_def enter_def call_def)
  have l: "wavelength_loading lib \<lparr>world = w1, trace = [Enter PathSetup, Enter GridConstruction,
        Call (Function ''ag.Grid2D.uniform'')
          [(''shape_native'', PyTuple [PyInt 400, PyInt 400]), (''pixel_scales'', PyFloat 0.2),
           (''sub_size'', PyInt 1)] (Inr grid_2d)]\<rparr> =
      (Inl e, \<lparr>world = w2, trace = [Enter PathSetup, Enter GridConstruction,
        Call (Function ''ag.Grid2D.uniform'')
          [(''shape_native'', PyTuple [PyInt 400, PyInt 400]), (''pixel_scales'', PyFloat 0.2),
           (''sub_size'', PyInt 1)] (Inr grid_2d),
        Enter WavelengthLoading,
        Call (Function ''ag.util.array_1d.numpy_array_1d_via_fits_from'')
          [(''file_path'', PyStr (path_join uv_wavelengths_path [''sma.fits''])),
           (''hdu'', PyInt 0)] (Inl e)]\<rparr>)"
    using load by (simp add: wavelength_loading_def bnd_def enter_def call_def)
  show ?thesis
    unfolding main_def run_def
    by (subst bnd_def, simp only: p prod.case sum.case)
       (subst bnd_def, simp only: g prod.case sum.case,
        subst bnd_def, simp only: l prod.case sum.case)
qed

text \<open>The run on a disk without the input file: grid construction succeeds, loading raises.\<close>

theorem loading_error_propagates_witness:
  "stub_library (Function ''ag.Grid2D.uniform'')
       [(''shape_native'', PyTuple [PyInt 400, PyInt 400]), (''pixel_scales'', PyFloat 0.2),
        (''sub_size'', PyInt 1)] no_files = (Inr (PyObj ''ag.Grid2D.uniform''), no_files) \<and>
   stub_library (Function ''ag.util.array_1d.numpy_array_1d_via_fits_from'')
       [(''file_path'', PyStr (path_join uv_wavelengths_path [''sma.fits''])),
        (''hdu'', PyInt 0)] no_files = (Inl FileNotFound, no_files) \<and>
   main stub_library no_files = (Inl FileNotFound, \<lparr>world = no_files, trace =
       [Enter PathSetup, Enter GridConstruction,
        Call (Function ''ag.Grid2D.uniform'')
          [(''shape_native'', PyTuple [PyInt 400, PyInt 400]), (''pixel_scales'', PyFloat 0.2),
           (''sub_size'', PyInt 1)] (Inr (PyObj ''ag.Grid2D.uniform'')),
        Enter WavelengthLoading,
        Call (Function ''ag.util.array_1d.numpy_array_1d_via_fits_from'')
          [(''file_path'', PyStr (path_join uv_wavelengths_path [''sma.fits''])),
           (''hdu'', PyInt 0)] (Inl FileNotFound)]\<rparr>)"
proof -
  have grid: "stub_library (Function ''ag.Grid2D.uniform'')
       [(''shape_native'', PyTuple [PyInt 400, PyInt 400]), (''pixel_scales'', PyFloat 0.2),
        (''sub_size'', PyInt 1)] no_files = (Inr (PyObj ''ag.Grid2D.uniform''), no_files)"
    by (simp add: stub_library_def)
  have load: "stub_library (Function ''ag.util.array_1d.numpy_array_1d_via_fits_from'')
       [(''file_path'', PyStr (path_join uv_wavelengths_path [''sma.fits''])),
        (''hdu'', PyInt 0)] no_files = (Inl FileNotFound, no_files)"
    by (simp add: stub_library_def str_arg_def no_files_def)
  from grid load loading_error_propagates [where lib = stub_library, OF grid load]
  show ?thesis by (intro conjI)
qed

text \<open>
  Claim C8, as stated: in every run each of the seven steps executes exactly once, in
  order, none skipped. It fails for a run that raises: on a disk without the input file
  the script calls \<open>ag.Grid2D.uniform\<close>, then the loading function, which raises
  \<open>FileNotFound\<close>; the run ends there, and no call of the four steps after it is made.
\<close>

theorem steps_skipped_counterexample:
  "fst (main stub_library no_files) = Inl FileNotFound \<and>
   map label (trace (snd (main stub_library no_files))) =
     [Inl PathSetup, Inl GridConstruction, Inr ''ag.Grid2D.uniform'',
      Inl WavelengthLoading, Inr ''ag.util.array_1d.numpy_array_1d_via_fits_from''] \<and>
   map label (trace (snd (main stub_library no_files))) \<noteq> script_order \<and>
   stages_of (trace (snd (main stub_library no_files))) =
     [PathSetup, GridConstruction, WavelengthLoading] \<and>
   stages_of (trace (snd (main stub_library no_files))) \<noteq> pipeline"
  by (simp add: missing_input_run missing_input_labels missing_input_stages pipeline_def
      script_order_eq)

text \<open>
  Claim C8, amended: in every run the steps entered and the package calls made, by name,
  are an initial segment of the script's order \<open>script_order\<close> (the seven steps, each
  followed by its calls in source order, 26 calls in all), so no call or step is
  repeated or made out of order; and in every run in which nothing raises the run makes
  all of \<open>script_order\<close>: every step executes exactly once, in order, with all its calls.
\<close>

theorem steps_once_in_order:
  "prefix (map label (trace (snd (main lib w)))) script_order \<and>
   (fst (main lib w) = Inr a \<longrightarrow> map label (trace (snd (main lib w))) = script_order) \<and>
   prefix (stages_of (trace (snd (main lib w)))) pipeline \<and>
   distinct (stages_of (trace (snd (main lib w)))) \<and>
   (fst (main lib w) = Inr a \<longrightarrow> stages_of (trace (snd (main lib w))) = pipeline)"
proof -
  let ?t = "trace (snd (main lib w))"
  from run_steps [of lib w] have pre: "prefix (map label ?t) script_order"
    and full: "fst (main lib w) = Inr a \<Longrightarrow> map label ?t = script_order"
    by blast+
  from stages_in_prefix [OF pre] have p: "prefix (stages_of ?t) pipeline"
    by (simp add: stages_of_def stages_in_script_order)
  then obtain zs where "pipeline = stages_of ?t @ zs" by (auto simp: prefix_def)
  moreover have "distinct pipeline" by (simp add: pipeline_def)
  ultimately have d: "distinct (stages_of ?t)" by (metis distinct_append)
  from full have "fst (main lib w) = Inr a \<longrightarrow> stages_of ?t = pipeline"
    by (simp add: stages_of_def stages_in_script_order)
  with pre full p d show ?thesis by blast
qed

text \<open>
  The run on a disk that holds the input file completes and makes every call of every
  step, in source order.
\<close>

theorem steps_once_in_order_witness:
  "fst (main stub_library bundled_files) = Inr PyNone \<and>
   map label (trace (snd (main stub_library bundled_files))) =
     [Inl PathSetup,
      Inl GridConstruction, Inr ''ag.Grid2D.uniform'',
      Inl WavelengthLoading, Inr ''ag.util.array_1d.numpy_array_1d_via_fits_from'',
      Inl SimulatorConfiguration, Inr ''ag.SimulatorInterferometer'',
      Inl SceneConstruction, Inr ''ag.convert.ell_comps_from'', Inr ''ag.lp.Sersic'',
      Inr ''ag.convert.ell_comps_from'', Inr ''ag.lp.Exponential'', Inr ''ag.Galaxy'',
      Inr ''ag.Plane'',
      Inl RenderingAndSimulation, Inr ''aplt.PlanePlotter'', Inr ''figures_2d'',
      Inr ''via_plane_from'', Inr ''aplt.InterferometerPlotter'', Inr ''figures_2d'',
      Inr ''subplot_interferometer'', Inr ''subplot_dirty_images'',
      Inl Output, Inr ''output_to_fits'', Inr ''aplt.Output'', Inr ''aplt.MatPlot2D'',
      Inr ''aplt.InterferometerPlotter'', Inr ''subplot_interferometer'',
      Inr ''subplot_dirty_images'', Inr ''figures_2d'', Inr ''aplt.PlanePlotter'',
      Inr ''subplot'', Inr ''output_to_json''] \<and>
   stages_of (trace (snd (main stub_library bundled_files))) =
     [PathSetup, GridConstruction, WavelengthLoading, SimulatorConfiguration,
      SceneConstruction, RenderingAndSimulation, Output]"
  using steps_once_in_order [where lib = stub_library and w = bundled_files and a = PyNone]
    first_run_completes
  by (simp add: pipeline_def script_order_eq)

text \<open>
  Claim C9. Whatever the package does, every call of \<open>output_to_fits\<close> the script makes
  carries \<open>overwrite=True\<close>. Hence, for a package that raises \<open>AlreadyExists\<close> from
  \<open>output_to_fits\<close> only when \<open>overwrite\<close> is not \<open>True\<close>, no run of the script has its
  fits output end in \<open>AlreadyExists\<close>.
\<close>

theorem overwrite_always_true:
  "(\<forall>ev \<in> set (trace (snd (main lib w))).
      fits_output_call ev \<longrightarrow> map_of (event_kwargs ev) ''overwrite'' = Some (PyBool True)) \<and>
   ((\<forall>obj kw w'. fst (lib (Method obj ''output_to_fits'') kw w') = Inl AlreadyExists \<longrightarrow>
        map_of kw ''overwrite'' \<noteq> Some (PyBool True)) \<longrightarrow>
    (\<forall>ev \<in> set (trace (snd (main lib w))).
        fits_output_call ev \<longrightarrow> raised ev \<noteq> Some AlreadyExists))"
proof (intro conjI impI ballI)
  fix ev
  assume "ev \<in> set (trace (snd (main lib w)))" and "fits_output_call ev"
  with all_events_main [OF overwrite_inv, of lib w]
  show "map_of (event_kwargs ev) ''overwrite'' = Some (PyBool True)"
    by (simp add: list_all_iff)
next
  fix ev
  assume contract: "\<forall>obj kw w'.
      fst (lib (Method obj ''output_to_fits'') kw w') = Inl AlreadyExists \<longrightarrow>
        map_of kw ''overwrite'' \<noteq> Some (PyBool True)"
    and ev: "ev \<in> set (trace (snd (main lib w)))" and fits: "fits_output_call ev"
  from ev all_events_main [OF overwrite_inv, of lib w] fits
  have ov: "map_of (event_kwargs ev) ''overwrite'' = Some (PyBool True)"
    by (simp add: list_all_iff)
  from ev all_events_main [OF from_library_inv, of lib w]
  have fl: "from_library lib ev" by (simp add: list_all_iff)
  show "raised ev \<noteq> Some AlreadyExists"
  proof
    assume r: "raised ev = Some AlreadyExists"
    from fits obtain obj kw res where e: "ev = Call (Method obj ''output_to_fits'') kw res"
      by (cases ev rule: fits_output_call.cases) auto
    from r e have "res = Inl AlreadyExists" by (cases res) auto
    with fl e obtain w' where
      "fst (lib (Method obj ''output_to_fits'') kw w') = Inl AlreadyExists"
      by auto
    with contract have "map_of kw ''overwrite'' \<noteq> Some (PyBool True)" by blast
    with ov e show False by simp
  qed
qed

text \<open>
  A second run, on a disk where the three fits files already exist: the call is made
  with \<open>overwrite=True\<close> and returns.
\<close>

theorem overwrite_always_true_witness:
  "fits_output_call (Call (Method (PyObj ''interferometer'') ''output_to_fits'')
     [(''visibilities_path'', PyStr ''dataset/interferometer/light_sersic_exp/visibilities.fits''),
      (''noise_map_path'', PyStr ''dataset/interferometer/light_sersic_exp/noise_map.fits''),
      (''uv_wavelengths_path'',
         PyStr ''dataset/interferometer/light_sersic_exp/uv_wavelengths.fits''),
      (''overwrite'', PyBool True)] (Inr PyNone) :: string event) \<and>
   Call (Method (PyObj ''interferometer'') ''output_to_fits'')
     [(''visibilities_path'', PyStr ''dataset/interferometer/light_sersic_exp/visibilities.fits''),
      (''noise_map_path'', PyStr ''dataset/interferometer/light_sersic_exp/noise_map.fits''),
      (''uv_wavelengths_path'',
         PyStr ''dataset/interferometer/light_sersic_exp/uv_wavelengths.fits''),
      (''overwrite'', PyBool True)] (Inr PyNone)
     \<in> set (trace (snd (main stub_library rerun_files))) \<and>
   map_of (event_kwargs (Call (Method (PyObj ''interferometer'') ''output_to_fits'')
     [(''visibilities_path'', PyStr ''dataset/interferometer/light_sersic_exp/visibilities.fits''),
      (''noise_map_path'', PyStr ''dataset/interferometer/light_sersic_exp/noise_map.fits''),
      (''uv_wavelengths_path'',
         PyStr ''dataset/interferometer/light_sersic_exp/uv_wavelengths.fits''),
      (''overwrite'', PyBool True)] (Inr PyNone) :: string event)) ''overwrite'' =
     Some (PyBool True) \<and>
   raised (Call (Method (PyObj ''interferometer'') ''output_to_fits'')
     [(''visibilities_path'', PyStr ''dataset/interferometer/light_sersic_exp/visibilities.fits''),
      (''noise_map_path'', PyStr ''dataset/interferometer/light_sersic_exp/noise_map.fits''),
      (''uv_wavelengths_path'',
         PyStr ''dataset/interferometer/light_sersic_exp/uv_wavelengths.fits''),
      (''overwrite'', PyBool True)] (Inr PyNone) :: string event) \<noteq> Some AlreadyExists"
  using overwrite_always_true [where lib = stub_library and w = rerun_files]
    stub_contract rerun_has_fits_output
  by simp

text \<open>
  Claim C10. The input file is \<open>dataset/interferometer/uv_wavelengths/sma.fits\<close>; the
  output directory is \<open>dataset/interferometer/light_sersic_exp\<close>; the input file is
  neither that directory nor inside it; and in every run, whatever the package does,
  the only call that is handed the input path is the loading call, while every path
  handed to any other call (the three fits paths, the plot directory, \<open>plane.json\<close>) is
  the output directory or lies inside it. Hence no run modifies the input file: for
  every package that changes a file only in a call that is handed that file's path or a
  directory containing it, and whose loading function only reads, the content of the
  input file after the run, completed or not, is its content before the run. Here
  \<open>content\<close> is any reading of files out of the world.
\<close>

theorem input_never_an_output:
  "path_join uv_wavelengths_path [''sma.fits''] =
     ''dataset/interferometer/uv_wavelengths/sma.fits'' \<and>
   dataset_path = ''dataset/interferometer/light_sersic_exp'' \<and>
   path_join uv_wavelengths_path [''sma.fits''] \<noteq> dataset_path \<and>
   \<not> below dataset_path (path_join uv_wavelengths_path [''sma.fits'']) \<and>
   (\<forall>ev \<in> set (trace (snd (main lib w))). paths_ok ev) \<and>
   ((\<forall>c kw w'. \<not> handed (path_join uv_wavelengths_path [''sma.fits'']) kw \<longrightarrow>
        content (snd (lib c kw w')) (path_join uv_wavelengths_path [''sma.fits'']) =
        content w' (path_join uv_wavelengths_path [''sma.fits''])) \<and>
    (\<forall>kw w'.
        content (snd (lib (Function ''ag.util.array_1d.numpy_array_1d_via_fits_from'') kw w'))
          (path_join uv_wavelengths_path [''sma.fits'']) =
        content w' (path_join uv_wavelengths_path [''sma.fits''])) \<longrightarrow>
    content (world (snd (main lib w))) (path_join uv_wavelengths_path [''sma.fits'']) =
    content w (path_join uv_wavelengths_path [''sma.fits'']))"
proof -
  have "list_all paths_ok (trace (snd (main lib w)))"
    by (rule all_events_main) (rule paths_inv)
  then have ev: "\<forall>ev \<in> set (trace (snd (main lib w))). paths_ok ev"
    by (simp add: list_all_iff)
  have nb: "\<not> below dataset_path (path_join uv_wavelengths_path [''sma.fits''])"
    by (simp add: below_def dataset_path_eq input_file_eq)
  have frame: "content (world (snd (main lib w))) ''dataset/interferometer/uv_wavelengths/sma.fits'' =
      content w ''dataset/interferometer/uv_wavelengths/sma.fits''"
    if told: "\<forall>c kw w'. \<not> handed ''dataset/interferometer/uv_wavelengths/sma.fits'' kw \<longrightarrow>
        content (snd (lib c kw w')) ''dataset/interferometer/uv_wavelengths/sma.fits'' =
        content w' ''dataset/interferometer/uv_wavelengths/sma.fits''"
      and reads: "\<forall>kw w'.
        content (snd (lib (Function ''ag.util.array_1d.numpy_array_1d_via_fits_from'') kw w'))
          ''dataset/interferometer/uv_wavelengths/sma.fits'' =
        content w' ''dataset/interferometer/uv_wavelengths/sma.fits''"
  proof -
    have "world_inv (\<lambda>x. content x ''dataset/interferometer/uv_wavelengths/sma.fits'' =
        content w ''dataset/interferometer/uv_wavelengths/sma.fits'') (run lib)"
      by (rule input_kept) (use told reads in blast)+
    from world_inv_main [OF this] show ?thesis by simp
  qed
  from ev nb frame show ?thesis
    by (simp only: input_file_eq) (simp add: dataset_path_eq)
qed

text \<open>
  A first run against the stand-in package, which writes where it is told: the three
  fits files and \<open>plane.json\<close> are written, and the input file still holds what it held.
\<close>

theorem input_never_an_output_witness:
  "Call (Method (PyObj ''interferometer'') ''output_to_fits'')
     [(''visibilities_path'', PyStr ''dataset/interferometer/light_sersic_exp/visibilities.fits''),
      (''noise_map_path'', PyStr ''dataset/interferometer/light_sersic_exp/noise_map.fits''),
      (''uv_wavelengths_path'',
         PyStr ''dataset/interferometer/light_sersic_exp/uv_wavelengths.fits''),
      (''overwrite'', PyBool True)] (Inr PyNone)
     \<in> set (trace (snd (main stub_library bundled_files))) \<and>
   paths_ok (Call (Method (PyObj ''interferometer'') ''output_to_fits'')
     [(''visibilities_path'', PyStr ''dataset/interferometer/light_sersic_exp/visibilities.fits''),
      (''noise_map_path'', PyStr ''dataset/interferometer/light_sersic_exp/noise_map.fits''),
      (''uv_wavelengths_path'',
         PyStr ''dataset/interferometer/light_sersic_exp/uv_wavelengths.fits''),
      (''overwrite'', PyBool True)] (Inr PyNone) :: string event) \<and>
   path_args
     [(''visibilities_path'', PyStr ''dataset/interferometer/light_sersic_exp/visibilities.fits''),
      (''noise_map_path'', PyStr ''dataset/interferometer/light_sersic_exp/noise_map.fits''),
      (''uv_wavelengths_path'',
         PyStr ''dataset/interferometer/light_sersic_exp/uv_wavelengths.fits''),
      (''overwrite'', PyBool True)] =
     [PyStr ''dataset/interferometer/light_sersic_exp/visibilities.fits'',
      PyStr ''dataset/interferometer/light_sersic_exp/noise_map.fits'',
      PyStr ''dataset/interferometer/light_sersic_exp/uv_wavelengths.fits'' :: string pyval] \<and>
   below dataset_path ''dataset/interferometer/light_sersic_exp/visibilities.fits'' \<and>
   map_of bundled_files ''dataset/interferometer/uv_wavelengths/sma.fits'' = Some ''sma'' \<and>
   map_of (world (snd (main stub_library bundled_files)))
     ''dataset/interferometer/light_sersic_exp/visibilities.fits'' = Some ''fits'' \<and>
   map_of (world (snd (main stub_library bundled_files)))
     ''dataset/interferometer/uv_wavelengths/sma.fits'' = Some ''sma''"
proof -
  note inst = input_never_an_output [where lib = stub_library and w = bundled_files
      and content = map_of]
  from inst have "\<forall>ev \<in> set (trace (snd (main stub_library bundled_files))). paths_ok ev"
    by blast
  moreover from inst stub_writes_where_told stub_loader_reads
  have "map_of (world (snd (main stub_library bundled_files)))
          (path_join uv_wavelengths_path [''sma.fits'']) =
        map_of bundled_files (path_join uv_wavelengths_path [''sma.fits''])"
    by blast
  moreover have "map_of bundled_files ''dataset/interferometer/uv_wavelengths/sma.fits'' =
      Some ''sma''"
    by (simp add: bundled_files_def)
  moreover have "map_of (world (snd (main stub_library bundled_files)))
     ''dataset/interferometer/light_sersic_exp/visibilities.fits'' = Some ''fits''"
    by (simp add: first_run_world)
  ultimately show ?thesis
    using first_run_has_fits_output
    by (auto simp: path_args_def path_keywords_def below_def dataset_path_eq input_file_eq)
qed

end
